theory Spec2Isabelle
  imports Main
begin

section \<open>Python values and their text forms\<close>

text \<open>
  The helper functions of \<^verbatim>\<open>mysql_helper_functions.py\<close> move Python scalars between a
  DataFrame and SQL text. The values that matter are integers, strings and tuples (the
  code tests \<^verbatim>\<open>isinstance(filter_values, tuple)\<close>). A string is a list of characters
  read as code points below 256.
\<close>

datatype pyval = PInt int | PStr string | PTuple "pyval list"

fun is_tuple :: "pyval \<Rightarrow> bool" where
  "is_tuple (PTuple vs) = True"
| "is_tuple v = False"

text \<open>\<^verbatim>\<open>sep.join(parts)\<close>.\<close>

fun join :: "string \<Rightarrow> string list \<Rightarrow> string" where
  "join sep [] = []"
| "join sep [p] = p"
| "join sep (p # q # ps) = p @ sep @ join sep (q # ps)"

text \<open>Decimal digits of a natural number, and \<^verbatim>\<open>str(n)\<close> of an integer.\<close>

fun str_nat :: "nat \<Rightarrow> string" where
  "str_nat n = (if n < 10 then [char_of (48 + n)]
                else str_nat (n div 10) @ [char_of (48 + n mod 10)])"

declare str_nat.simps [simp del]

definition str_int :: "int \<Rightarrow> string" where
  "str_int i = (if i < 0 then CHR ''-'' # str_nat (nat (- i)) else str_nat (nat i))"

text \<open>
  \<^verbatim>\<open>repr\<close> of a string: single quotes unless the text holds a single quote and no
  double quote; the quote and the backslash are escaped, tab, newline and carriage
  return get their short escapes, other unprintable code points a \<^verbatim>\<open>\xNN\<close> escape.
\<close>

definition hex_digit :: "nat \<Rightarrow> char" where
  "hex_digit n = (if n < 10 then char_of (48 + n) else char_of (87 + n))"

definition hex_escape :: "char \<Rightarrow> string" where
  "hex_escape ch =
     [CHR 0x5C, CHR ''x'', hex_digit ((of_char ch :: nat) div 16), hex_digit ((of_char ch :: nat) mod 16)]"

definition py_printable :: "char \<Rightarrow> bool" where
  "py_printable ch =
     (let n = (of_char ch :: nat) in (32 \<le> n \<and> n < 127) \<or> (161 \<le> n \<and> n \<noteq> 173))"

definition repr_char :: "char \<Rightarrow> char \<Rightarrow> string" where
  "repr_char quote ch =
     (if ch = quote \<or> ch = CHR 0x5C then [CHR 0x5C, ch]
      else if ch = CHR 0x09 then [CHR 0x5C, CHR ''t'']
      else if ch = CHR 0x0A then [CHR 0x5C, CHR ''n'']
      else if ch = CHR 0x0D then [CHR 0x5C, CHR ''r'']
      else if py_printable ch then [ch]
      else hex_escape ch)"

definition repr_str :: "string \<Rightarrow> string" where
  "repr_str s =
     (let quote = (if CHR 0x27 \<in> set s \<and> CHR 0x22 \<notin> set s then CHR 0x22 else CHR 0x27)
      in quote # concat (map (repr_char quote) s) @ [quote])"

fun repr :: "pyval \<Rightarrow> string" where
  "repr (PInt i) = str_int i"
| "repr (PStr s) = repr_str s"
| "repr (PTuple vs) =
     (case vs of
        [v] \<Rightarrow> ''('' @ repr v @ '',)''
      | _ \<Rightarrow> ''('' @ join '', '' (map repr vs) @ '')'')"

text \<open>\<^verbatim>\<open>str(v)\<close>, which an f-string applies to a value it interpolates.\<close>

fun str_of :: "pyval \<Rightarrow> string" where
  "str_of (PStr s) = s"
| "str_of v = repr v"

section \<open>Query builders\<close>

text \<open>
  Each function builds its statement with an f-string over a triple-quoted template;
  the line breaks and the indentation of the template are part of the text.
\<close>

definition nl :: string where
  "nl = [CHR 0x0A]"

definition indent :: string where
  "indent = nl @ ''        ''"

definition tail_indent :: string where
  "tail_indent = nl @ ''    ''"

definition select_all_query :: "string \<Rightarrow> string" where
  "select_all_query table_name =
     indent @ ''SELECT *'' @ indent @ ''FROM '' @ table_name @ tail_indent"

definition placeholders :: "string list \<Rightarrow> string" where
  "placeholders columns = join '', '' (replicate (length columns) ''%s'')"

definition insert_query :: "string \<Rightarrow> string list \<Rightarrow> string" where
  "insert_query table_name columns =
     indent @ ''INSERT INTO '' @ table_name @ '' ('' @ join '', '' columns @ '') '' @
     indent @ ''VALUES ('' @ placeholders columns @ '')'' @ tail_indent"

definition describe_query :: "string \<Rightarrow> string" where
  "describe_query table_name = indent @ ''DESCRIBE '' @ table_name @ '';'' @ tail_indent"

definition filter_query :: "pyval list \<Rightarrow> string" where
  "filter_query filter_list = join '', '' (map (\<lambda>filter. [CHR 0x27] @ str_of filter @ [CHR 0x27]) filter_list)"

definition select_in_query :: "string \<Rightarrow> string \<Rightarrow> pyval list \<Rightarrow> string" where
  "select_in_query table_name column_filter filter_list =
     indent @ ''SELECT *'' @ indent @ ''FROM '' @ table_name @
     indent @ ''WHERE '' @ column_filter @
     indent @ ''IN ('' @ filter_query filter_list @ '');'' @ tail_indent"

definition where_clause :: "string list \<Rightarrow> string" where
  "where_clause column_filters = join '' AND '' (map (\<lambda>column. column @ '' = %s'') column_filters)"

definition select_where_query :: "string \<Rightarrow> string list \<Rightarrow> string" where
  "select_where_query table_name column_filters =
     indent @ ''SELECT *'' @ indent @ ''FROM '' @ table_name @
     indent @ ''WHERE '' @ where_clause column_filters @ '';'' @ tail_indent"

definition combined_set :: "string list \<Rightarrow> pyval list \<Rightarrow> string list" where
  "combined_set update_columns update_values =
     map (\<lambda>(column, value). column @ '' = '' @ repr value) (zip update_columns update_values)"

definition set_clause :: "string list \<Rightarrow> pyval list \<Rightarrow> string" where
  "set_clause update_columns update_values = join '', '' (combined_set update_columns update_values)"

definition update_query :: "string \<Rightarrow> string list \<Rightarrow> string list \<Rightarrow> pyval list \<Rightarrow> string" where
  "update_query table_name column_filters update_columns update_values =
     indent @ ''UPDATE '' @ table_name @
     indent @ ''SET '' @ set_clause update_columns update_values @
     indent @ ''WHERE '' @ where_clause column_filters @ '';'' @ tail_indent"

section \<open>The connection and the driver\<close>

text \<open>
  The functions talk to the database through a \<^verbatim>\<open>mysql.connector\<close> connection. The
  model keeps what the code can observe of it: whether it is connected, and the sequence
  of calls made on it and on its cursors. What the server answers is a parameter, the
  \<open>driver\<close>: for each call it says, from the state of the connection at that moment,
  whether the call raises \<^verbatim>\<open>connector.Error\<close> (with its message) or what it returns.
  \<^verbatim>\<open>conn.cursor()\<close> on a connection that is not connected raises
  \<^verbatim>\<open>OperationalError\<close>, a \<^verbatim>\<open>connector.Error\<close>; \<^verbatim>\<open>cursor.close()\<close> and
  \<^verbatim>\<open>conn.close()\<close> do not raise. \<^verbatim>\<open>print\<close> has no effect on the model.
\<close>

datatype exn =
    ConnectorError string
  | UnboundLocalError string
  | KeyError string
  | ValueError string
  | IndexError

datatype call =
    Cursor
  | Execute string "pyval option"
  | Fetchall
  | Commit
  | Rollback
  | CursorClose
  | ConnClose

record conn =
  is_connected :: bool
  calls :: "call list"

record driver =
  on_cursor :: "conn \<Rightarrow> string option"
  on_execute :: "conn \<Rightarrow> string \<Rightarrow> pyval option \<Rightarrow> string option"
  on_fetchall :: "conn \<Rightarrow> string + pyval list list"
  on_commit :: "conn \<Rightarrow> string option"
  on_rollback :: "conn \<Rightarrow> string option"

type_synonym 'a outcome = "(exn + 'a) \<times> conn"

definition record_call :: "call \<Rightarrow> conn \<Rightarrow> conn" where
  "record_call k c = c\<lparr>calls := calls c @ [k]\<rparr>"

definition conn_cursor :: "driver \<Rightarrow> conn \<Rightarrow> string option \<times> conn" where
  "conn_cursor d c =
     ((if is_connected c then on_cursor d c else Some ''MySQL Connection not available.''),
      record_call Cursor c)"

definition cursor_execute :: "driver \<Rightarrow> string \<Rightarrow> pyval option \<Rightarrow> conn \<Rightarrow> string option \<times> conn" where
  "cursor_execute d query params c = (on_execute d c query params, record_call (Execute query params) c)"

definition cursor_fetchall :: "driver \<Rightarrow> conn \<Rightarrow> (string + pyval list list) \<times> conn" where
  "cursor_fetchall d c = (on_fetchall d c, record_call Fetchall c)"

definition conn_commit :: "driver \<Rightarrow> conn \<Rightarrow> string option \<times> conn" where
  "conn_commit d c = (on_commit d c, record_call Commit c)"

definition conn_rollback :: "driver \<Rightarrow> conn \<Rightarrow> string option \<times> conn" where
  "conn_rollback d c = (on_rollback d c, record_call Rollback c)"

definition cursor_close :: "conn \<Rightarrow> conn" where
  "cursor_close c = record_call CursorClose c"

definition conn_close :: "conn \<Rightarrow> conn" where
  "conn_close c = (record_call ConnClose c)\<lparr>is_connected := False\<rparr>"

section \<open>DataFrames\<close>

text \<open>
  A DataFrame is its column labels and its rows. A dataset handed to the bulk operations
  has string labels (SQL column names); \<^verbatim>\<open>pd.DataFrame(cursor.fetchall())\<close> has the
  default labels \<open>0, 1, ...\<close>, and the rows of a result set all have the same width.
\<close>

record 'l dataframe =
  df_columns :: "'l list"
  df_values :: "pyval list list"

definition df_empty :: "'l dataframe \<Rightarrow> bool" where
  "df_empty df = (df_columns df = [] \<or> df_values df = [])"

definition DataFrame :: "pyval list list \<Rightarrow> pyval dataframe" where
  "DataFrame rows =
     \<lparr>df_columns = (case rows of [] \<Rightarrow> [] | r # _ \<Rightarrow> map (\<lambda>i. PInt (int i)) [0..<length r]),
      df_values = rows\<rparr>"

text \<open>\<^verbatim>\<open>result.columns = col_names\<close>: pandas raises ValueError on a length mismatch.\<close>

definition set_columns :: "pyval dataframe \<Rightarrow> pyval list \<Rightarrow> exn + pyval dataframe" where
  "set_columns df col_names =
     (if length col_names = length (df_columns df) then Inr (df\<lparr>df_columns := col_names\<rparr>)
      else Inl (ValueError ''Length mismatch''))"

text \<open>\<^verbatim>\<open>row[filter_col]\<close> on a row of the dataset: KeyError when no column has that label.\<close>

definition row_getitem :: "string list \<Rightarrow> pyval list \<Rightarrow> string \<Rightarrow> pyval option" where
  "row_getitem columns row key = map_of (zip columns row) key"

section \<open>The helper functions\<close>

subsection \<open>\<^verbatim>\<open>get_all_data_from_table\<close>\<close>

text \<open>
  When \<^verbatim>\<open>conn.cursor()\<close> raises, the handler runs and then the \<^verbatim>\<open>finally\<close> block reads
  the unbound local \<^verbatim>\<open>cursor\<close>; this holds for every function below. On a handled error
  this function falls off its end and returns \<^verbatim>\<open>None\<close>.
\<close>

definition get_all_data_from_table :: "driver \<Rightarrow> conn \<Rightarrow> string \<Rightarrow> pyval dataframe option outcome" where
  "get_all_data_from_table d conn table_name =
     (let query = select_all_query table_name;
          (r1, c1) = conn_cursor d conn
      in case r1 of
           Some err \<Rightarrow>
             (let (r, c) = conn_rollback d c1 in (Inl (UnboundLocalError ''cursor''), c))
         | None \<Rightarrow>
             (let (r2, c2) = cursor_execute d query None c1;
                  (r3, c3) = (case r2 of None \<Rightarrow> cursor_fetchall d c2 | Some err \<Rightarrow> (Inl err, c2))
              in case r3 of
                   Inr rows \<Rightarrow> (Inr (Some (DataFrame rows)), cursor_close c3)
                 | Inl err \<Rightarrow>
                     (let (r, c) = conn_rollback d c3
                      in (case r of Some e \<Rightarrow> Inl (ConnectorError e) | None \<Rightarrow> Inr None,
                          cursor_close c))))"

subsection \<open>\<^verbatim>\<open>insert_into_table\<close>\<close>

text \<open>The inner loop: one \<^verbatim>\<open>cursor.execute(query, value)\<close> per row, its error printed.\<close>

fun insert_rows :: "driver \<Rightarrow> string \<Rightarrow> pyval list list \<Rightarrow> conn \<Rightarrow> conn" where
  "insert_rows d query [] c = c"
| "insert_rows d query (value # values) c =
     insert_rows d query values (snd (cursor_execute d query (Some (PTuple value)) c))"

definition insert_into_table :: "driver \<Rightarrow> conn \<Rightarrow> string dataframe \<Rightarrow> string \<Rightarrow> int outcome" where
  "insert_into_table d conn data_df table_name =
     (let query = insert_query table_name (df_columns data_df);
          values = df_values data_df;
          (r1, c1) = conn_cursor d conn
      in case r1 of
           Some err \<Rightarrow>
             (let (r, c) = conn_rollback d c1 in (Inl (UnboundLocalError ''cursor''), c))
         | None \<Rightarrow>
             (let c2 = insert_rows d query values c1;
                  (r3, c3) = conn_commit d c2
              in case r3 of
                   None \<Rightarrow> (Inr 1, cursor_close c3)
                 | Some err \<Rightarrow>
                     (let (r, c) = conn_rollback d c3
                      in (case r of Some e \<Rightarrow> Inl (ConnectorError e) | None \<Rightarrow> Inr 1,
                          cursor_close c))))"

subsection \<open>\<^verbatim>\<open>get_table_columns\<close>\<close>

text \<open>\<^verbatim>\<open>[row[0] for row in cursor.fetchall()]\<close>.\<close>

fun first_fields :: "pyval list list \<Rightarrow> exn + pyval list" where
  "first_fields [] = Inr []"
| "first_fields ([] # rows) = Inl IndexError"
| "first_fields ((v # vs) # rows) =
     (case first_fields rows of Inl e \<Rightarrow> Inl e | Inr fs \<Rightarrow> Inr (v # fs))"

definition get_table_columns :: "driver \<Rightarrow> conn \<Rightarrow> string \<Rightarrow> pyval list outcome" where
  "get_table_columns d conn table_name =
     (let query = describe_query table_name;
          (r1, c1) = conn_cursor d conn
      in case r1 of
           Some err \<Rightarrow>
             (let (r, c) = conn_rollback d c1 in (Inl (UnboundLocalError ''cursor''), c))
         | None \<Rightarrow>
             (let (r2, c2) = cursor_execute d query None c1;
                  (r3, c3) = (case r2 of None \<Rightarrow> cursor_fetchall d c2 | Some err \<Rightarrow> (Inl err, c2))
              in case r3 of
                   Inr rows \<Rightarrow> (first_fields rows, cursor_close c3)
                 | Inl err \<Rightarrow>
                     (let (r, c) = conn_rollback d c3
                      in (case r of Some e \<Rightarrow> Inl (ConnectorError e)
                                  | None \<Rightarrow> Inl (UnboundLocalError ''result''),
                          cursor_close c))))"

subsection \<open>\<^verbatim>\<open>get_all_with_filter\<close> and \<^verbatim>\<open>get_all_with_multiple_filters\<close>\<close>

text \<open>
  The two filtered reads differ in the statement and in the parameters they hand to
  \<^verbatim>\<open>cursor.execute\<close>; their \<^verbatim>\<open>try\<close> / \<^verbatim>\<open>except\<close> / \<^verbatim>\<open>finally\<close> blocks are the same
  text, modelled once as \<open>filtered_read\<close>. A \<^verbatim>\<open>connector.Error\<close> that escapes
  \<^verbatim>\<open>get_table_columns\<close> is caught by the handler of the read; by then \<^verbatim>\<open>result\<close> is
  bound, so the unlabelled frame is returned. Any other exception passes through the
  \<^verbatim>\<open>finally\<close> block.
\<close>

definition close_both :: "conn \<Rightarrow> conn" where
  "close_both c = conn_close (cursor_close c)"

definition read_except :: "driver \<Rightarrow> pyval dataframe option \<Rightarrow> conn \<Rightarrow> pyval dataframe outcome" where
  "read_except d result c =
     (let (r, c') = conn_rollback d c
      in (case r of
            Some e \<Rightarrow> Inl (ConnectorError e)
          | None \<Rightarrow> (case result of None \<Rightarrow> Inl (UnboundLocalError ''result'') | Some df \<Rightarrow> Inr df),
          close_both c'))"

definition filtered_read :: "driver \<Rightarrow> conn \<Rightarrow> string \<Rightarrow> pyval option \<Rightarrow> string \<Rightarrow> pyval dataframe outcome" where
  "filtered_read d conn query params table_name =
     (let (r1, c1) = conn_cursor d conn
      in case r1 of
           Some err \<Rightarrow>
             (let (r, c) = conn_rollback d c1 in (Inl (UnboundLocalError ''cursor''), c))
         | None \<Rightarrow>
             (let (r2, c2) = cursor_execute d query params c1;
                  (r3, c3) = (case r2 of None \<Rightarrow> cursor_fetchall d c2 | Some err \<Rightarrow> (Inl err, c2))
              in case r3 of
                   Inl err \<Rightarrow> read_except d None c3
                 | Inr rows \<Rightarrow>
                     (let result = DataFrame rows
                      in if \<not> df_empty result then
                           (let (r4, c4) = get_table_columns d c3 table_name
                            in case r4 of
                                 Inr col_names \<Rightarrow> (set_columns result col_names, close_both c4)
                               | Inl (ConnectorError e) \<Rightarrow> read_except d (Some result) c4
                               | Inl e \<Rightarrow> (Inl e, close_both c4))
                         else (Inr result, close_both c3))))"

definition get_all_with_filter :: "driver \<Rightarrow> conn \<Rightarrow> pyval list \<Rightarrow> string \<Rightarrow> string \<Rightarrow> pyval dataframe outcome" where
  "get_all_with_filter d conn filter_list table_name column_filter =
     filtered_read d conn (select_in_query table_name column_filter filter_list) None table_name"

definition get_all_with_multiple_filters :: "driver \<Rightarrow> conn \<Rightarrow> string list \<Rightarrow> pyval \<Rightarrow> string \<Rightarrow> pyval dataframe outcome" where
  "get_all_with_multiple_filters d conn column_filters filter_values table_name =
     filtered_read d conn (select_where_query table_name column_filters) (Some filter_values) table_name"

subsection \<open>\<^verbatim>\<open>update_multiple_columns_by_multi_filter\<close>\<close>

definition coerce_filter :: "pyval \<Rightarrow> pyval" where
  "coerce_filter filter_values = (if \<not> is_tuple filter_values then PTuple [filter_values] else filter_values)"

definition update_multiple_columns_by_multi_filter ::
  "driver \<Rightarrow> conn \<Rightarrow> string list \<Rightarrow> pyval \<Rightarrow> string list \<Rightarrow> pyval list \<Rightarrow> string \<Rightarrow> int outcome" where
  "update_multiple_columns_by_multi_filter d conn column_filters filter_values update_columns update_values table_name =
     (let params = coerce_filter filter_values;
          query = update_query table_name column_filters update_columns update_values;
          (r1, c1) = conn_cursor d conn
      in case r1 of
           Some err \<Rightarrow>
             (let (r, c) = conn_rollback d c1 in (Inl (UnboundLocalError ''cursor''), c))
         | None \<Rightarrow>
             (let (r2, c2) = cursor_execute d query (Some params) c1;
                  (r3, c3) = (case r2 of None \<Rightarrow> conn_commit d c2 | Some err \<Rightarrow> (Some err, c2))
              in case r3 of
                   None \<Rightarrow> (Inr 1, close_both c3)
                 | Some err \<Rightarrow>
                     (let (r, c) = conn_rollback d c3
                      in (case r of Some e \<Rightarrow> Inl (ConnectorError e) | None \<Rightarrow> Inr 1,
                          close_both c))))"

subsection \<open>\<^verbatim>\<open>update_rows_in_database\<close>\<close>

text \<open>
  The loop over \<^verbatim>\<open>new_df.iterrows()\<close>. Each row is sent with all the columns of the
  dataset and all its values; \<^verbatim>\<open>not update_status\<close> holds for the integer \<open>0\<close> only.
\<close>

fun update_rows :: "driver \<Rightarrow> string \<Rightarrow> string list \<Rightarrow> string \<Rightarrow> pyval list list \<Rightarrow> conn \<Rightarrow> bool outcome" where
  "update_rows d filter_col columns table_name [] conn = (Inr True, conn)"
| "update_rows d filter_col columns table_name (row # rows) conn =
     (case row_getitem columns row filter_col of
        None \<Rightarrow> (Inl (KeyError filter_col), conn)
      | Some key \<Rightarrow>
          (let (update_status, c) =
                 update_multiple_columns_by_multi_filter d conn [filter_col] key columns row table_name
           in case update_status of
                Inl e \<Rightarrow> (Inl e, c)
              | Inr status \<Rightarrow>
                  if status = 0 then (Inr False, c)
                  else update_rows d filter_col columns table_name rows c))"

definition update_rows_in_database :: "driver \<Rightarrow> conn \<Rightarrow> string dataframe \<Rightarrow> string \<Rightarrow> string \<Rightarrow> bool outcome" where
  "update_rows_in_database d conn new_df filter_col table_name =
     (if df_empty new_df then (Inr False, conn)
      else update_rows d filter_col (df_columns new_df) table_name (df_values new_df) conn)"

text \<open>
  The specification words the update spec of a row as "all other column/value pairs":
  the pairs of the row with the filter column left out.
\<close>

definition without_filter_column :: "string \<Rightarrow> string list \<Rightarrow> pyval list \<Rightarrow> (string \<times> pyval) list" where
  "without_filter_column filter_col columns row =
     filter (\<lambda>(column, value). column \<noteq> filter_col) (zip columns row)"

section \<open>Placeholders and bound parameters\<close>

text \<open>
  The placeholders of a statement are the occurrences of \<^verbatim>\<open>%s\<close> in its text; the bound
  parameters are the members of the tuple handed to \<^verbatim>\<open>execute\<close> (none when it gets the
  statement alone, one for a bare value). A text with no placeholder may still hold a
  \<^verbatim>\<open>%\<close>.
\<close>

fun count_placeholders :: "string \<Rightarrow> nat" where
  "count_placeholders [] = 0"
| "count_placeholders [x] = 0"
| "count_placeholders (x # y # s) =
     (if x = CHR ''%'' \<and> y = CHR ''s'' then Suc (count_placeholders s)
      else count_placeholders (y # s))"

fun param_count :: "pyval option \<Rightarrow> nat" where
  "param_count None = 0"
| "param_count (Some (PTuple vs)) = length vs"
| "param_count (Some v) = 1"

definition no_placeholder :: "string \<Rightarrow> bool" where
  "no_placeholder s = (count_placeholders s = 0)"

section \<open>Example drivers and datasets\<close>

text \<open>
  A connection just opened; a driver that accepts every call and serves the given rows
  to \<^verbatim>\<open>fetchall\<close>; one that rejects the statements carrying a given parameter; one whose
  server rejects every statement.
\<close>

definition fresh :: conn where
  "fresh = \<lparr>is_connected = True, calls = []\<rparr>"

definition serving :: "pyval list list \<Rightarrow> driver" where
  "serving rows =
     \<lparr>on_cursor = (\<lambda>c. None),
      on_execute = (\<lambda>c q p. None),
      on_fetchall = (\<lambda>c. Inr rows),
      on_commit = (\<lambda>c. None),
      on_rollback = (\<lambda>c. None)\<rparr>"

definition rejecting :: "pyval \<Rightarrow> driver" where
  "rejecting bad =
     (serving [])\<lparr>on_execute := (\<lambda>c q p. if p = Some bad then Some ''rejected'' else None)\<rparr>"

definition failing :: driver where
  "failing = (serving [])\<lparr>on_execute := (\<lambda>c q p. Some ''statement failed'')\<rparr>"

definition one_row :: "string dataframe" where
  "one_row = \<lparr>df_columns = [''id'', ''name''], df_values = [[PInt 1, PStr ''x'']]\<rparr>"

definition two_rows :: "string dataframe" where
  "two_rows =
     \<lparr>df_columns = [''id'', ''name''],
      df_values = [[PInt 1, PStr ''x''], [PInt 2, PStr ''y'']]\<rparr>"

definition three_rows :: "string dataframe" where
  "three_rows =
     \<lparr>df_columns = [''id'', ''name''],
      df_values = [[PInt 1, PStr ''x''], [PInt 2, PStr ''y''], [PInt 3, PStr ''z'']]\<rparr>"

text \<open>
  A driver whose \<^verbatim>\<open>execute\<close> takes its parameters as a tuple and raises on any other
  value, and one whose \<^verbatim>\<open>cursor()\<close> raises on a live connection (a result left unread).
\<close>

definition tuples_only :: "pyval list list \<Rightarrow> driver" where
  "tuples_only rows =
     (serving rows)\<lparr>on_execute :=
        (\<lambda>c q p. case p of
                     None \<Rightarrow> None
                   | Some v \<Rightarrow> if is_tuple v then None else Some ''Could not process parameters'')\<rparr>"

definition busy :: driver where
  "busy = (serving [])\<lparr>on_cursor := (\<lambda>c. Some ''Unread result found'')\<rparr>"

text \<open>
  A driver for one table: \<^verbatim>\<open>fetchall\<close> after the DESCRIBE statement serves one row per
  column, led by its name; after any other statement it serves the data.
\<close>

definition describing :: "string \<Rightarrow> string list \<Rightarrow> pyval list list \<Rightarrow> driver" where
  "describing table_name names data =
     (serving data)\<lparr>on_fetchall :=
        (\<lambda>c. case rev (calls c) of
               Execute q p # earlier \<Rightarrow>
                 if q = describe_query table_name then Inr (map (\<lambda>n. [PStr n, PStr ''int'']) names)
                 else Inr data
             | _ \<Rightarrow> Inr data)\<rparr>"

text \<open>
  A driver that loses the server while the table is described: DESCRIBE raises and so
  does the first rollback; the next rollback goes through.
\<close>

definition flaky :: "string \<Rightarrow> pyval list list \<Rightarrow> driver" where
  "flaky table_name data =
     (serving data)\<lparr>on_execute :=
                       (\<lambda>c q p. if q = describe_query table_name then Some ''lost'' else None),
                     on_rollback :=
                       (\<lambda>c. if Rollback \<in> set (calls c) then None else Some ''lost'')\<rparr>"

section \<open>Unfolding the calls on the connection\<close>

lemmas driver_calls =
  conn_cursor_def cursor_execute_def cursor_fetchall_def conn_commit_def conn_rollback_def
  cursor_close_def conn_close_def record_call_def close_both_def

section \<open>The bulk update does not stop at a failed row\<close>

text \<open>
  Claim C1 (fail-fast bulk update: a row whose update does not succeed makes
  \<^verbatim>\<open>update_rows_in_database\<close> return Failure for the batch). The loop tests
  \<^verbatim>\<open>if not update_status: return False\<close>, but the single-row update ends with
  \<^verbatim>\<open>return 1\<close> on its error path too. On a dataset of one row whose statement the
  server rejects, the update is rolled back and the bulk operation returns \<open>True\<close>.
\<close>

theorem update_rows_in_database_failed_row_reports_True:
  "on_execute (rejecting (PTuple [PInt 1])) (record_call Cursor fresh)
      (update_query ''t'' [''id''] [''id'', ''name''] [PInt 1, PStr ''x'']) (Some (PTuple [PInt 1]))
     = Some ''rejected'' \<and>
   update_rows_in_database (rejecting (PTuple [PInt 1])) fresh one_row ''id'' ''t'' =
     (Inr True,
      \<lparr>is_connected = False,
       calls = [Cursor,
                Execute (update_query ''t'' [''id''] [''id'', ''name''] [PInt 1, PStr ''x''])
                        (Some (PTuple [PInt 1])),
                Rollback, CursorClose, ConnClose]\<rparr>)"
  by code_simp

section \<open>The schema introspector on a failing statement\<close>

text \<open>
  Claim C9 (when the schema-description query fails, \<^verbatim>\<open>get_table_columns\<close> returns a
  Failure value rather than raising). The handler prints the error and rolls back, and
  then \<^verbatim>\<open>return result\<close> reads a local that was never bound: the caller gets
  \<^verbatim>\<open>UnboundLocalError\<close>.
\<close>

theorem get_table_columns_failed_query_raises:
  "get_table_columns failing fresh ''t'' =
     (Inl (UnboundLocalError ''result''),
      \<lparr>is_connected = True,
       calls = [Cursor, Execute (describe_query ''t'') None, Rollback, CursorClose]\<rparr>)"
  by code_simp

section \<open>The bulk update on a dataset of several rows\<close>

lemma update_status_is_1:
  "fst (update_multiple_columns_by_multi_filter d c cf fv uc uv t) = Inr s \<Longrightarrow> s = 1"
  by (auto simp: update_multiple_columns_by_multi_filter_def driver_calls Let_def
           split: option.splits prod.splits if_splits)

lemma update_on_closed_connection:
  "\<not> is_connected c \<Longrightarrow>
   fst (update_multiple_columns_by_multi_filter d c cf fv uc uv t) = Inl (UnboundLocalError ''cursor'')"
  by (simp add: update_multiple_columns_by_multi_filter_def driver_calls Let_def split: prod.splits)

lemma update_returns_closed:
  "fst (update_multiple_columns_by_multi_filter d c cf fv uc uv t) = Inr s \<Longrightarrow>
   \<not> is_connected (snd (update_multiple_columns_by_multi_filter d c cf fv uc uv t))"
  by (auto simp: update_multiple_columns_by_multi_filter_def driver_calls Let_def
        split: prod.splits option.splits if_splits)

text \<open>
  Whatever the driver answers, the loop does not get past the second row: a first update
  that returns has closed the connection.
\<close>

lemma update_rows_second_row_raises:
  "\<exists>e. fst (update_rows d fc cols t (r1 # r2 # rows) c) = Inl e"
proof (cases "row_getitem cols r1 fc")
  case None
  then show ?thesis by simp
next
  case (Some k1)
  obtain r c' where u: "update_multiple_columns_by_multi_filter d c [fc] k1 cols r1 t = (r, c')"
    by (cases "update_multiple_columns_by_multi_filter d c [fc] k1 cols r1 t")
  show ?thesis
  proof (cases r)
    case (Inl e)
    with Some u show ?thesis by simp
  next
    case (Inr s)
    then have s: "s = 1"
      using update_status_is_1 [of d c "[fc]" k1 cols r1 t s] u by simp
    have closed: "\<not> is_connected c'"
      using update_returns_closed [of d c "[fc]" k1 cols r1 t s] u Inr by simp
    show ?thesis
    proof (cases "row_getitem cols r2 fc")
      case None
      with Some u Inr s show ?thesis by simp
    next
      case k2: (Some k2)
      obtain r' c'' where u2: "update_multiple_columns_by_multi_filter d c' [fc] k2 cols r2 t = (r', c'')"
        by (cases "update_multiple_columns_by_multi_filter d c' [fc] k2 cols r2 t")
      then have "r' = Inl (UnboundLocalError ''cursor'')"
        using update_on_closed_connection [OF closed, of d "[fc]" k2 cols r2 t] by simp
      with Some u Inr s k2 u2 show ?thesis by simp
    qed
  qed
qed

text \<open>
  Claim C3 (the single-row update returns 1 on every execution path, so
  \<^verbatim>\<open>update_rows_in_database\<close> returns True for every non-empty dataset). On a dataset of
  two rows and a server that accepts every statement, the first row's update commits and
  closes the connection (line 237); the second row's \<^verbatim>\<open>conn.cursor()\<close> raises, the
  handler runs, and the \<^verbatim>\<open>finally\<close> block reads the local \<^verbatim>\<open>cursor\<close> that was
  never bound. \<^verbatim>\<open>UnboundLocalError\<close> escapes the loop and nothing is returned.
\<close>

theorem update_rows_in_database_two_rows_raises:
  "\<not> df_empty two_rows \<and>
   update_rows_in_database (serving []) fresh two_rows ''id'' ''t'' =
     (Inl (UnboundLocalError ''cursor''),
      \<lparr>is_connected = False,
       calls = [Cursor,
                Execute (update_query ''t'' [''id''] [''id'', ''name''] [PInt 1, PStr ''x''])
                        (Some (PTuple [PInt 1])),
                Commit, CursorClose, ConnClose, Cursor, Rollback]\<rparr>) \<and>
   fst (update_rows_in_database (serving []) fresh two_rows ''id'' ''t'') \<noteq> Inr True"
  by code_simp

section \<open>What the calls on the connection are\<close>

lemma get_table_columns_appends:
  "\<exists>xs. calls (snd (get_table_columns d c t)) = calls c @ xs"
  by (auto simp: get_table_columns_def driver_calls Let_def split: prod.splits option.splits sum.splits)

lemma filtered_read_statement:
  assumes "conn_cursor d c = (None, c1)"
  shows "\<exists>rest. calls (snd (filtered_read d c q p t)) = calls c @ Cursor # Execute q p # rest"
proof -
  obtain xs where xs: "calls (snd (get_table_columns d (record_call Fetchall (record_call (Execute q p) c1)) t)) 
      = calls (record_call Fetchall (record_call (Execute q p) c1)) @ xs"
    using get_table_columns_appends by blast
  have c1: "c1 = record_call Cursor c" using assms by (simp add: conn_cursor_def)
  show ?thesis using assms xs unfolding c1
    by (auto simp: filtered_read_def read_except_def driver_calls Let_def
        split: prod.splits option.splits sum.splits exn.splits)
qed

lemma filtered_read_closes:
  assumes "conn_cursor d c = (None, c1)"
  shows "\<exists>c'. snd (filtered_read d c q p t) = close_both c'"
  using assms
  by (auto simp: filtered_read_def read_except_def Let_def
        split: prod.splits option.splits sum.splits exn.splits)

lemma update_closes:
  assumes "conn_cursor d c = (None, c1)"
  shows "\<exists>c'. snd (update_multiple_columns_by_multi_filter d c cf fv uc uv t) = close_both c'"
  using assms
  by (auto simp: update_multiple_columns_by_multi_filter_def Let_def
        split: prod.splits option.splits sum.splits exn.splits)

lemma close_both_closed: "\<not> is_connected (close_both c) \<and> last (calls (close_both c)) = ConnClose"
  by (simp add: driver_calls)

lemma filtered_read_on_closed_connection:
  "\<not> is_connected c \<Longrightarrow> fst (filtered_read d c q p t) = Inl (UnboundLocalError ''cursor'')"
  by (simp add: filtered_read_def driver_calls Let_def split: prod.splits)

lemma update_statement:
  "\<exists>rest. calls (snd (update_multiple_columns_by_multi_filter d c cf fv uc uv t)) = calls c @ Cursor # rest"
  by (auto simp: update_multiple_columns_by_multi_filter_def driver_calls Let_def
        split: prod.splits option.splits sum.splits exn.splits)

lemma update_statement_sent:
  "conn_cursor d c = (None, c1) \<Longrightarrow> \<exists>rest. calls (snd (update_multiple_columns_by_multi_filter d c cf fv uc uv t)) 
     = calls c @ Cursor # Execute (update_query t cf uc uv) (Some (coerce_filter fv)) # rest"
  by (auto simp: update_multiple_columns_by_multi_filter_def driver_calls Let_def
        split: prod.splits option.splits sum.splits exn.splits if_splits)

lemma update_outcomes:
  "fst (update_multiple_columns_by_multi_filter d c cf fv uc uv t) = Inr 1 \<or>
   fst (update_multiple_columns_by_multi_filter d c cf fv uc uv t) = Inl (UnboundLocalError ''cursor'') \<or>
   (\<exists>e. fst (update_multiple_columns_by_multi_filter d c cf fv uc uv t) = Inl (ConnectorError e))"
  by (auto simp: update_multiple_columns_by_multi_filter_def driver_calls Let_def
        split: prod.splits option.splits sum.splits exn.splits if_splits)

section \<open>Scalar filter values\<close>

text \<open>
  Claim C4 (a bare scalar filter value behaves like the one-element tuple holding it, in
  the equality-filter reads and in the update). As stated it fails for the read:
  \<^verbatim>\<open>get_all_with_multiple_filters\<close> hands \<^verbatim>\<open>filter_values\<close> to
  \<^verbatim>\<open>cursor.execute\<close> as it is, and a driver that takes parameters as a tuple only
  (as \<^verbatim>\<open>mysql.connector\<close> does) rejects the scalar.
\<close>

theorem read_scalar_differs_from_tuple:
  "\<not> is_tuple (PInt 3) \<and>
   fst (get_all_with_multiple_filters (tuples_only []) fresh [''id''] (PInt 3) ''t'')
     = Inl (UnboundLocalError ''result'') \<and>
   fst (get_all_with_multiple_filters (tuples_only []) fresh [''id''] (PTuple [PInt 3]) ''t'')
     = Inr (DataFrame [])"
  by code_simp

text \<open>
  Claim C4, amended: the update coerces a value that is not a tuple, so it behaves as on
  the one-element tuple; the read sends the statement with the value as given.
\<close>

theorem update_coerces_scalar_filter:
  "\<not> is_tuple v \<Longrightarrow>
   update_multiple_columns_by_multi_filter d c cf v uc uv t
     = update_multiple_columns_by_multi_filter d c cf (PTuple [v]) uc uv t \<and>
   (conn_cursor d c = (None, c1) \<longrightarrow>
     (\<exists>rest. calls (snd (get_all_with_multiple_filters d c cols v t))
        = calls c @ Cursor # Execute (select_where_query t cols) (Some v) # rest))"
  using filtered_read_statement [of d c c1 "select_where_query t cols" "Some v" t]
  by (simp add: update_multiple_columns_by_multi_filter_def coerce_filter_def
        get_all_with_multiple_filters_def)

theorem update_coerces_scalar_filter_witness:
  "\<not> is_tuple (PInt 3) \<and>
   update_multiple_columns_by_multi_filter (tuples_only []) fresh [''id''] (PInt 3) [''name''] [PStr ''x''] ''t''
     = update_multiple_columns_by_multi_filter (tuples_only []) fresh [''id''] (PTuple [PInt 3]) [''name''] [PStr ''x''] ''t'' \<and>
   (\<exists>rest. calls (snd (get_all_with_multiple_filters (tuples_only []) fresh [''id''] (PInt 3) ''t''))
        = calls fresh @ Cursor # Execute (select_where_query ''t'' [''id'']) (Some (PInt 3)) # rest)"
proof -
  have h1: "\<not> is_tuple (PInt 3)" by simp
  have h2: "conn_cursor (tuples_only []) fresh = (None, record_call Cursor fresh)" by code_simp
  from update_coerces_scalar_filter [OF h1, of "tuples_only []" fresh "[''id'']" "[''name'']" "[PStr ''x'']"
      "''t''" "record_call Cursor fresh" "[''id'']"] h1 h2
  show ?thesis by blast
qed

section \<open>Mismatched column and value counts\<close>

lemma zip_by_index:
  "zip xs ys = map (\<lambda>i. (xs ! i, ys ! i)) [0..<min (length xs) (length ys)]"
  by (rule nth_equalityI) simp_all

lemma set_clause_pairs:
  "set_clause uc uv =
     join '', '' (map (\<lambda>i. uc ! i @ '' = '' @ repr (uv ! i)) [0..<min (length uc) (length uv)])"
  by (simp add: set_clause_def combined_set_def zip_by_index [of uc uv] comp_def)

text \<open>
  Claim C5 (a spec whose column count differs from its value count fails as a
  ContractViolation before any I/O, and is never silently truncated). As stated it fails:
  no function compares the two lengths. With two update columns and one update value the
  statement is built from the first pair alone, sent and committed.
\<close>

theorem update_mismatch_is_truncated_and_sent:
  "update_multiple_columns_by_multi_filter (serving []) fresh [''id''] (PInt 7) [''a'', ''b''] [PInt 1] ''t'' =
     (Inr 1,
      \<lparr>is_connected = False,
       calls = [Cursor,
                Execute ''\<newline>        UPDATE t\<newline>        SET a = 1\<newline>        WHERE id = %s;\<newline>    ''
                        (Some (PTuple [PInt 7])),
                Commit, CursorClose, ConnClose]\<rparr>)"
  by code_simp

text \<open>
  Claim C5, amended: the statement of the update holds, in its SET clause, the
  assignments \<^verbatim>\<open>column = repr(value)\<close> of the first \<open>min(len(columns), len(values))\<close>
  pairs, in order, and nothing of the longer list's remainder; whatever the lengths, the
  update calls the connection, sends that statement with the filter values as given once
  it has a cursor, and raises nothing but what the calls on the connection raise.
\<close>

theorem update_query_zip_truncation:
  "update_query t cf uc uv =
     ''\<newline>        UPDATE '' @ t @ ''\<newline>        SET '' @
     join '', '' (map (\<lambda>i. uc ! i @ '' = '' @ repr (uv ! i)) [0..<min (length uc) (length uv)]) @
     ''\<newline>        WHERE '' @ join '' AND '' (map (\<lambda>column. column @ '' = %s'') cf) @
     '';\<newline>    '' \<and>
   (\<exists>rest. calls (snd (update_multiple_columns_by_multi_filter d c cf fv uc uv t)) = calls c @ Cursor # rest) \<and>
   (conn_cursor d c = (None, c1) \<longrightarrow>
     (\<exists>rest. calls (snd (update_multiple_columns_by_multi_filter d c cf fv uc uv t))
        = calls c @ Cursor # Execute (update_query t cf uc uv) (Some (coerce_filter fv)) # rest)) \<and>
   (fst (update_multiple_columns_by_multi_filter d c cf fv uc uv t) = Inr 1 \<or>
    fst (update_multiple_columns_by_multi_filter d c cf fv uc uv t) = Inl (UnboundLocalError ''cursor'') \<or>
    (\<exists>e. fst (update_multiple_columns_by_multi_filter d c cf fv uc uv t) = Inl (ConnectorError e)))"
proof -
  have "update_query t cf uc uv =
     ''\<newline>        UPDATE '' @ t @ ''\<newline>        SET '' @
     join '', '' (map (\<lambda>i. uc ! i @ '' = '' @ repr (uv ! i)) [0..<min (length uc) (length uv)]) @
     ''\<newline>        WHERE '' @ join '' AND '' (map (\<lambda>column. column @ '' = %s'') cf) @
     '';\<newline>    ''"
    by (simp add: update_query_def set_clause_pairs where_clause_def indent_def tail_indent_def nl_def)
  then show ?thesis
    using update_statement [of d c cf fv uc uv t]
      update_statement_sent [of d c c1 cf fv uc uv t] update_outcomes [of d c cf fv uc uv t]
    by blast
qed

theorem update_query_zip_truncation_witness:
  "update_query ''t'' [''id''] [''a'', ''b''] [PInt 1] =
     ''\<newline>        UPDATE t\<newline>        SET a = 1\<newline>        WHERE id = %s;\<newline>    '' \<and>
   (\<exists>rest. calls (snd (update_multiple_columns_by_multi_filter (serving []) fresh [''id''] (PInt 7)
                        [''a'', ''b''] [PInt 1] ''t''))
      = calls fresh @ Cursor # Execute (update_query ''t'' [''id''] [''a'', ''b''] [PInt 1])
                                 (Some (coerce_filter (PInt 7))) # rest)"
proof -
  have h: "conn_cursor (serving []) fresh = (None, record_call Cursor fresh)" by code_simp
  note T = update_query_zip_truncation [of "''t''" "[''id'']" "[''a'', ''b'']" "[PInt 1]" "serving []" fresh
      "PInt 7" "record_call Cursor fresh"]
  have e: "''\<newline>        UPDATE '' @ ''t'' @ ''\<newline>        SET '' @
     join '', '' (map (\<lambda>i. [''a'', ''b''] ! i @ '' = '' @ repr ([PInt 1] ! i))
                    [0..<min (length [''a'', ''b'']) (length [PInt 1])]) @
     ''\<newline>        WHERE '' @ join '' AND '' (map (\<lambda>column. column @ '' = %s'') [''id'']) @
     '';\<newline>    ''
     = ''\<newline>        UPDATE t\<newline>        SET a = 1\<newline>        WHERE id = %s;\<newline>    ''"
    by code_simp
  have a: "update_query ''t'' [''id''] [''a'', ''b''] [PInt 1] =
     ''\<newline>        UPDATE t\<newline>        SET a = 1\<newline>        WHERE id = %s;\<newline>    ''"
    using T [THEN conjunct1] e by (rule trans)
  have b: "\<exists>rest. calls (snd (update_multiple_columns_by_multi_filter (serving []) fresh [''id''] (PInt 7)
                        [''a'', ''b''] [PInt 1] ''t''))
      = calls fresh @ Cursor # Execute (update_query ''t'' [''id''] [''a'', ''b''] [PInt 1])
                                 (Some (coerce_filter (PInt 7))) # rest"
    using T h by blast
  show ?thesis using a b by (rule conjI)
qed

section \<open>Closing the borrowed connection\<close>

text \<open>
  Once \<^verbatim>\<open>conn.cursor()\<close> has succeeded, each of the two filtered reads and the update
  ends by closing the connection, whether the statement went through or raised, and any
  of the three called on the connection afterwards raises.
\<close>

lemma operations_close_the_connection:
  assumes "conn_cursor d c = (None, c1)"
    and "c' = snd (get_all_with_filter d c filter_list t column_filter) \<or>
         c' = snd (get_all_with_multiple_filters d c column_filters filter_values t) \<or>
         c' = snd (update_multiple_columns_by_multi_filter d c column_filters filter_values uc uv t)"
  shows "\<not> is_connected c' \<and> last (calls c') = ConnClose \<and>
         fst (get_all_with_filter d2 c' fl2 t2 col2) = Inl (UnboundLocalError ''cursor'') \<and>
         fst (get_all_with_multiple_filters d2 c' cols2 fv2 t2) = Inl (UnboundLocalError ''cursor'') \<and>
         fst (update_multiple_columns_by_multi_filter d2 c' cols2 fv2 uc2 uv2 t2)
           = Inl (UnboundLocalError ''cursor'')"
proof -
  obtain c'' where "c' = close_both c''"
    using assms filtered_read_closes [OF assms(1)] update_closes [OF assms(1)]
    unfolding get_all_with_filter_def get_all_with_multiple_filters_def by metis
  then have closed: "\<not> is_connected c'" and "last (calls c') = ConnClose"
    using close_both_closed by simp_all
  then show ?thesis
    using filtered_read_on_closed_connection [OF closed] update_on_closed_connection [OF closed]
    by (simp add: get_all_with_filter_def get_all_with_multiple_filters_def)
qed

text \<open>
  Claim C10 (every invocation of a filtered read or of the multi-filter update closes the
  borrowed connection on exit, on the success path and on the error path, which makes it
  unusable for a subsequent call). The \<^verbatim>\<open>finally\<close> blocks call \<^verbatim>\<open>cursor.close()\<close> and
  then \<^verbatim>\<open>conn.close()\<close>. When \<^verbatim>\<open>conn.cursor()\<close> itself raises on a live connection,
  \<^verbatim>\<open>cursor\<close> is unbound, \<^verbatim>\<open>cursor.close()\<close> raises \<^verbatim>\<open>UnboundLocalError\<close> and
  \<^verbatim>\<open>conn.close()\<close> is not reached: the three operations leave the connection open.
\<close>

theorem cursor_error_leaves_connection_open:
  "is_connected fresh \<and>
   get_all_with_filter busy fresh [PInt 1] ''t'' ''id'' =
     (Inl (UnboundLocalError ''cursor''), \<lparr>is_connected = True, calls = [Cursor, Rollback]\<rparr>) \<and>
   get_all_with_multiple_filters busy fresh [''id''] (PTuple [PInt 1]) ''t'' =
     (Inl (UnboundLocalError ''cursor''), \<lparr>is_connected = True, calls = [Cursor, Rollback]\<rparr>) \<and>
   update_multiple_columns_by_multi_filter busy fresh [''id''] (PTuple [PInt 1]) [''name''] [PStr ''x''] ''t'' =
     (Inl (UnboundLocalError ''cursor''), \<lparr>is_connected = True, calls = [Cursor, Rollback]\<rparr>)"
  by code_simp

section \<open>The statement sent for each row\<close>

lemma update_executes:
  assumes "Execute q p \<in> set (calls (snd (update_multiple_columns_by_multi_filter d c cf fv uc uv t)))"
    and "Execute q p \<notin> set (calls c)"
  shows "q = update_query t cf uc uv \<and> p = Some (coerce_filter fv)"
  using assms
  by (auto simp: update_multiple_columns_by_multi_filter_def driver_calls Let_def
        split: prod.splits option.splits if_splits)

lemma update_rows_appends:
  "\<exists>xs. calls (snd (update_rows d fc cols t rows c)) = calls c @ xs"
proof (induction rows arbitrary: c)
  case Nil
  then show ?case by simp
next
  case (Cons row rows)
  show ?case
  proof (cases "row_getitem cols row fc")
    case None
    then show ?thesis by simp
  next
    case (Some key)
    obtain r c' where u: "update_multiple_columns_by_multi_filter d c [fc] key cols row t = (r, c')"
      by (cases "update_multiple_columns_by_multi_filter d c [fc] key cols row t")
    obtain ys where ys: "calls c' = calls c @ Cursor # ys"
      using update_statement [of d c "[fc]" key cols row t] u by auto
    obtain zs where zs: "calls (snd (update_rows d fc cols t rows c')) = calls c' @ zs"
      using Cons.IH by blast
    show ?thesis using Some u ys zs
      by (auto split: sum.splits)
  qed
qed

lemma update_rows_executes:
  assumes "Execute q p \<in> set (calls (snd (update_rows d fc cols t rows c)))"
    and "Execute q p \<notin> set (calls c)"
  shows "\<exists>row \<in> set rows. \<exists>key. row_getitem cols row fc = Some key \<and>
           q = update_query t [fc] cols row \<and> p = Some (coerce_filter key)"
  using assms
proof (induction rows arbitrary: c)
  case Nil
  then show ?case by simp
next
  case (Cons row rows)
  show ?case
  proof (cases "row_getitem cols row fc")
    case None
    with Cons.prems show ?thesis by simp
  next
    case (Some key)
    obtain r c' where u: "update_multiple_columns_by_multi_filter d c [fc] key cols row t = (r, c')"
      by (cases "update_multiple_columns_by_multi_filter d c [fc] key cols row t")
    show ?thesis
    proof (cases "Execute q p \<in> set (calls c')")
      case True
      then have "q = update_query t [fc] cols row \<and> p = Some (coerce_filter key)"
        using update_executes [of q p d c "[fc]" key cols row t] u Cons.prems(2) by simp
      with Some show ?thesis by auto
    next
      case False
      have "Execute q p \<in> set (calls (snd (update_rows d fc cols t rows c')))"
        using Cons.prems(1) Some u False by (auto split: sum.splits if_splits)
      from Cons.IH [OF this False] show ?thesis by auto
    qed
  qed
qed

lemma update_rows_first_statement:
  assumes "row_getitem cols row fc = Some key" and "conn_cursor d c = (None, c1)"
  shows "\<exists>rest. calls (snd (update_rows d fc cols t (row # rows) c))
           = calls c @ Cursor # Execute (update_query t [fc] cols row) (Some (coerce_filter key)) # rest"
proof -
  obtain r c' where u: "update_multiple_columns_by_multi_filter d c [fc] key cols row t = (r, c')"
    by (cases "update_multiple_columns_by_multi_filter d c [fc] key cols row t")
  obtain ys where ys: "calls c' = calls c @ Cursor # Execute (update_query t [fc] cols row) (Some (coerce_filter key)) # ys"
    using update_statement_sent [OF assms(2), of "[fc]" key cols row t] u by auto
  obtain zs where zs: "calls (snd (update_rows d fc cols t rows c')) = calls c' @ zs"
    using update_rows_appends by blast
  show ?thesis using assms(1) u ys zs by (auto split: sum.splits)
qed


text \<open>
  Claim C2 (each row's update takes the value in the filter column as filter key and
  exactly the other column/value pairs of the row, the filter column left out, as its
  update spec). As stated it fails: line 251 passes every column of the dataset and every
  value of the row, so the SET clause assigns the filter column too.
\<close>

theorem update_rows_in_database_sets_filter_column:
  "calls (snd (update_rows_in_database (serving []) fresh one_row ''id'' ''t'')) =
     [Cursor,
      Execute (update_query ''t'' [''id''] [''id'', ''name''] [PInt 1, PStr ''x''])
              (Some (PTuple [PInt 1])),
      Commit, CursorClose, ConnClose] \<and>
   set_clause [''id'', ''name''] [PInt 1, PStr ''x''] = ''id = 1, name = '' @ [CHR 0x27, CHR ''x'', CHR 0x27] \<and>
   without_filter_column ''id'' [''id'', ''name''] [PInt 1, PStr ''x''] = [(''name'', PStr ''x'')] \<and>
   update_query ''t'' [''id''] [''id'', ''name''] [PInt 1, PStr ''x'']
     \<noteq> update_query ''t'' [''id''] [''name''] [PStr ''x'']"
  by code_simp

text \<open>
  Claim C2, amended: every statement \<^verbatim>\<open>update_rows_in_database\<close> sends is the update
  of one row of the dataset, filtered on the row's value in the filter column and setting
  all the columns of the dataset to the row's values; the first row's statement is sent
  as soon as the connection gives a cursor.
\<close>

theorem update_rows_in_database_row_statements:
  "(Execute q p \<in> set (calls (snd (update_rows_in_database d c df fc t))) \<and>
    Execute q p \<notin> set (calls c) \<longrightarrow>
      (\<exists>row \<in> set (df_values df). \<exists>key.
          row_getitem (df_columns df) row fc = Some key \<and>
          q = update_query t [fc] (df_columns df) row \<and> p = Some (coerce_filter key))) \<and>
   (df_columns df \<noteq> [] \<and> df_values df = row # rows \<and>
    row_getitem (df_columns df) row fc = Some key \<and> conn_cursor d c = (None, c1) \<longrightarrow>
      (\<exists>rest. calls (snd (update_rows_in_database d c df fc t)) =
          calls c @ Cursor #
          Execute (update_query t [fc] (df_columns df) row) (Some (coerce_filter key)) # rest))"
proof (intro conjI impI)
  assume a: "Execute q p \<in> set (calls (snd (update_rows_in_database d c df fc t))) \<and>
             Execute q p \<notin> set (calls c)"
  then have "\<not> df_empty df"
    by (auto simp: update_rows_in_database_def)
  with a show "\<exists>row \<in> set (df_values df). \<exists>key.
          row_getitem (df_columns df) row fc = Some key \<and>
          q = update_query t [fc] (df_columns df) row \<and> p = Some (coerce_filter key)"
    using update_rows_executes [of q p d fc "df_columns df" t "df_values df" c]
    by (simp add: update_rows_in_database_def)
next
  assume "df_columns df \<noteq> [] \<and> df_values df = row # rows \<and>
    row_getitem (df_columns df) row fc = Some key \<and> conn_cursor d c = (None, c1)"
  then show "\<exists>rest. calls (snd (update_rows_in_database d c df fc t)) =
          calls c @ Cursor #
          Execute (update_query t [fc] (df_columns df) row) (Some (coerce_filter key)) # rest"
    using update_rows_first_statement [of "df_columns df" row fc key d c c1 t rows]
    by (simp add: update_rows_in_database_def df_empty_def)
qed

theorem update_rows_in_database_row_statements_witness:
  "Execute (update_query ''t'' [''id''] [''id'', ''name''] [PInt 1, PStr ''x'']) (Some (PTuple [PInt 1]))
     \<in> set (calls (snd (update_rows_in_database (serving []) fresh two_rows ''id'' ''t''))) \<and>
   (\<exists>row \<in> set (df_values two_rows). \<exists>key.
      row_getitem (df_columns two_rows) row ''id'' = Some key \<and>
      update_query ''t'' [''id''] [''id'', ''name''] [PInt 1, PStr ''x'']
        = update_query ''t'' [''id''] (df_columns two_rows) row \<and>
      Some (PTuple [PInt 1]) = Some (coerce_filter key)) \<and>
   (\<exists>rest. calls (snd (update_rows_in_database (serving []) fresh two_rows ''id'' ''t'')) =
      calls fresh @ Cursor #
      Execute (update_query ''t'' [''id''] (df_columns two_rows) [PInt 1, PStr ''x''])
              (Some (coerce_filter (PInt 1))) # rest)"
proof -
  let ?q = "update_query ''t'' [''id''] [''id'', ''name''] [PInt 1, PStr ''x'']"
  note T = update_rows_in_database_row_statements
    [of ?q "Some (PTuple [PInt 1])" "serving []" fresh two_rows "''id''" "''t''"
        "[PInt 1, PStr ''x'']" "[[PInt 2, PStr ''y'']]" "PInt 1" "record_call Cursor fresh"]
  have h1: "Execute ?q (Some (PTuple [PInt 1]))
     \<in> set (calls (snd (update_rows_in_database (serving []) fresh two_rows ''id'' ''t'')))"
    by code_simp
  have h2: "Execute ?q (Some (PTuple [PInt 1])) \<notin> set (calls fresh)"
    by code_simp
  have h3: "df_columns two_rows \<noteq> [] \<and> df_values two_rows = [PInt 1, PStr ''x''] # [[PInt 2, PStr ''y'']] \<and>
    row_getitem (df_columns two_rows) [PInt 1, PStr ''x''] ''id'' = Some (PInt 1) \<and>
    conn_cursor (serving []) fresh = (None, record_call Cursor fresh)"
    by code_simp
  from T h1 h2 h3 show ?thesis by blast
qed

section \<open>The bulk insert\<close>

lemma insert_rows_calls:
  "calls (insert_rows d q rows c) = calls c @ map (\<lambda>row. Execute q (Some (PTuple row))) rows"
  by (induction rows arbitrary: c) (simp_all add: cursor_execute_def record_call_def)

text \<open>
  Claim C6 (best-effort bulk insert: an execution error on one row does not abort the
  loop of \<^verbatim>\<open>insert_into_table\<close>, every remaining row is still attempted, and the
  transaction is committed exactly once at the end whatever rows failed; the operation
  reports success). Once the connection has given a cursor, the calls made are one
  \<^verbatim>\<open>execute\<close> per row of the dataset, in order and whatever each of them raised, then
  one \<^verbatim>\<open>commit\<close>; when the commit goes through the function returns 1.
\<close>

theorem insert_into_table_attempts_every_row:
  assumes "conn_cursor d c = (None, c1)"
  shows "(\<exists>tail. calls (snd (insert_into_table d c df t)) =
            calls c @ Cursor #
            map (\<lambda>row. Execute (insert_query t (df_columns df)) (Some (PTuple row))) (df_values df) @
            Commit # tail \<and>
            (tail = [CursorClose] \<or> tail = [Rollback, CursorClose])) \<and>
         (conn_commit d (insert_rows d (insert_query t (df_columns df)) (df_values df) c1) = (None, c3) \<longrightarrow>
            insert_into_table d c df t = (Inr 1, cursor_close c3))"
proof -
  have c1: "c1 = record_call Cursor c"
    using assms by (simp add: conn_cursor_def)
  have "calls c1 = calls c @ [Cursor]"
    unfolding c1 by (simp add: record_call_def)
  then show ?thesis
    using assms insert_rows_calls [of d "insert_query t (df_columns df)" "df_values df" c1]
    by (auto simp: insert_into_table_def Let_def conn_commit_def conn_rollback_def
          cursor_close_def record_call_def split: option.splits prod.splits)
qed

theorem insert_into_table_attempts_every_row_witness:
  "on_execute (rejecting (PTuple [PInt 2, PStr ''y'']))
      (record_call (Execute (insert_query ''t'' [''id'', ''name'']) (Some (PTuple [PInt 1, PStr ''x''])))
         (record_call Cursor fresh))
      (insert_query ''t'' [''id'', ''name'']) (Some (PTuple [PInt 2, PStr ''y''])) = Some ''rejected'' \<and>
   insert_into_table (rejecting (PTuple [PInt 2, PStr ''y''])) fresh three_rows ''t'' =
     (Inr 1,
      \<lparr>is_connected = True,
       calls = [Cursor,
                Execute (insert_query ''t'' [''id'', ''name'']) (Some (PTuple [PInt 1, PStr ''x''])),
                Execute (insert_query ''t'' [''id'', ''name'']) (Some (PTuple [PInt 2, PStr ''y''])),
                Execute (insert_query ''t'' [''id'', ''name'']) (Some (PTuple [PInt 3, PStr ''z''])),
                Commit, CursorClose]\<rparr>)"
proof -
  let ?d = "rejecting (PTuple [PInt 2, PStr ''y''])"
  let ?q = "insert_query ''t'' [''id'', ''name'']"
  let ?c1 = "record_call Cursor fresh"
  let ?c2 = "insert_rows ?d (insert_query ''t'' (df_columns three_rows)) (df_values three_rows) ?c1"
  have h1: "conn_cursor ?d fresh = (None, ?c1)" by code_simp
  have h2: "conn_commit ?d ?c2 = (None, record_call Commit ?c2)" by code_simp
  have h3: "on_execute ?d (record_call (Execute ?q (Some (PTuple [PInt 1, PStr ''x'']))) ?c1)
      ?q (Some (PTuple [PInt 2, PStr ''y''])) = Some ''rejected''" by code_simp
  have h4: "cursor_close (record_call Commit ?c2) =
     \<lparr>is_connected = True,
       calls = [Cursor,
                Execute ?q (Some (PTuple [PInt 1, PStr ''x''])),
                Execute ?q (Some (PTuple [PInt 2, PStr ''y''])),
                Execute ?q (Some (PTuple [PInt 3, PStr ''z''])),
                Commit, CursorClose]\<rparr>" by code_simp
  from insert_into_table_attempts_every_row [OF h1, of three_rows "''t''" "record_call Commit ?c2"] h2
  have "insert_into_table ?d fresh three_rows ''t'' = (Inr 1, cursor_close (record_call Commit ?c2))"
    by blast
  with h3 h4 show ?thesis by simp
qed

section \<open>Labelling the rows of a filtered read\<close>

lemma get_table_columns_first_call:
  "\<exists>xs. calls (snd (get_table_columns d c t)) = calls c @ Cursor # xs"
  by (auto simp: get_table_columns_def driver_calls Let_def split: prod.splits option.splits sum.splits)

lemma filtered_read_empty:
  assumes "conn_cursor d c = (None, c1)" and "cursor_execute d q p c1 = (None, c2)"
    and "cursor_fetchall d c2 = (Inr rows, c3)" and "df_empty (DataFrame rows)"
  shows "filtered_read d c q p t = (Inr (DataFrame rows), close_both c3)"
  using assms by (simp add: filtered_read_def Let_def)

lemma filtered_read_introspects:
  assumes "conn_cursor d c = (None, c1)" and "cursor_execute d q p c1 = (None, c2)"
    and "cursor_fetchall d c2 = (Inr rows, c3)" and "\<not> df_empty (DataFrame rows)"
  shows "\<exists>rest. calls (snd (filtered_read d c q p t)) = calls c3 @ Cursor # rest"
proof -
  obtain xs where "calls (snd (get_table_columns d c3 t)) = calls c3 @ Cursor # xs"
    using get_table_columns_first_call by blast
  then show ?thesis using assms
    by (auto simp: filtered_read_def Let_def read_except_def conn_rollback_def close_both_def
          cursor_close_def conn_close_def record_call_def
          split: prod.splits sum.splits exn.splits option.splits)
qed

lemma filtered_read_labels:
  assumes "conn_cursor d c = (None, c1)" and "cursor_execute d q p c1 = (None, c2)"
    and "cursor_fetchall d c2 = (Inr rows, c3)" and "\<not> df_empty (DataFrame rows)"
    and "fst (get_table_columns d c3 t) = Inr col_names"
    and "length col_names = length (df_columns (DataFrame rows))"
  shows "fst (filtered_read d c q p t) = Inr ((DataFrame rows)\<lparr>df_columns := col_names\<rparr>)"
  using assms
  by (auto simp: filtered_read_def Let_def set_columns_def split: prod.splits)

lemma filtered_read_failure:
  assumes "conn_cursor d c = (None, c1)"
    and "cursor_execute d q p c1 = (Some e, c2) \<or>
         cursor_execute d q p c1 = (None, c2) \<and> cursor_fetchall d c2 = (Inl e, c3)"
  shows "\<exists>x. fst (filtered_read d c q p t) = Inl x"
  using assms
  by (auto simp: filtered_read_def Let_def read_except_def split: prod.splits option.splits)


lemma close_both_calls: "calls (close_both c) = calls c @ [CursorClose, ConnClose]"
  by (simp add: driver_calls)

text \<open>
  Claim C8 (a filtered read labels the raw rows with the column names of the schema
  introspector exactly when the result is non-empty; an empty result is returned as an
  empty frame with no labelling attempt, and differs from a failure). As stated it fails:
  a non-empty result is labelled only if the introspector gives names. When the DESCRIBE
  statement and the introspector's rollback raise, the \<^verbatim>\<open>connector.Error\<close> reaches the
  handler of the read, and the read returns the non-empty frame with its default labels
  \<open>0, 1\<close>.
\<close>

theorem nonempty_result_returned_unlabelled:
  "\<not> df_empty (DataFrame [[PInt 1, PStr ''x'']]) \<and>
   get_all_with_filter (flaky ''t'' [[PInt 1, PStr ''x'']]) fresh [PInt 1] ''t'' ''id'' =
     (Inr \<lparr>df_columns = [PInt 0, PInt 1], df_values = [[PInt 1, PStr ''x'']]\<rparr>,
      \<lparr>is_connected = False,
       calls = [Cursor, Execute (select_in_query ''t'' ''id'' [PInt 1]) None, Fetchall,
                Cursor, Execute (describe_query ''t'') None, Rollback, CursorClose,
                Rollback, CursorClose, ConnClose]\<rparr>)"
  by code_simp

text \<open>
  Claim C8, amended: for both filtered reads, once the statement has run and the rows are
  fetched, the schema introspector is called exactly when the frame is non-empty. An
  empty frame is returned as it is, and the only calls left are those that close the
  cursor and the connection; a non-empty frame is followed by the introspector's call on
  the connection, and when the introspector returns names, as many as the frame has
  columns, the frame returned carries these names. A statement or a fetch that raises
  gives an exception, never a frame, so an empty result differs from a failure.
\<close>

theorem filtered_reads_label_nonempty_results:
  assumes "(read = get_all_with_filter d c filter_list t column_filter \<and>
            q = select_in_query t column_filter filter_list \<and> p = None) \<or>
           (read = get_all_with_multiple_filters d c column_filters filter_values t \<and>
            q = select_where_query t column_filters \<and> p = Some filter_values)"
    and "conn_cursor d c = (None, c1)"
  shows "(cursor_execute d q p c1 = (None, c2) \<and> cursor_fetchall d c2 = (Inr rows, c3) \<and>
          df_empty (DataFrame rows) \<longrightarrow>
            read = (Inr (DataFrame rows), close_both c3) \<and>
            calls (snd read) = calls c3 @ [CursorClose, ConnClose]) \<and>
         (cursor_execute d q p c1 = (None, c2) \<and> cursor_fetchall d c2 = (Inr rows, c3) \<and>
          \<not> df_empty (DataFrame rows) \<longrightarrow>
            (\<exists>rest. calls (snd read) = calls c3 @ Cursor # rest) \<and>
            (fst (get_table_columns d c3 t) = Inr col_names \<and>
             length col_names = length (df_columns (DataFrame rows)) \<longrightarrow>
               fst read = Inr ((DataFrame rows)\<lparr>df_columns := col_names\<rparr>))) \<and>
         (cursor_execute d q p c1 = (Some e, c2) \<or>
          cursor_execute d q p c1 = (None, c2) \<and> cursor_fetchall d c2 = (Inl e, c3) \<longrightarrow>
            (\<exists>x. fst read = Inl x))"
proof -
  have read: "read = filtered_read d c q p t"
    using assms(1) by (auto simp: get_all_with_filter_def get_all_with_multiple_filters_def)
  have empty: "cursor_execute d q p c1 = (None, c2) \<and> cursor_fetchall d c2 = (Inr rows, c3) \<and>
      df_empty (DataFrame rows) \<longrightarrow>
        filtered_read d c q p t = (Inr (DataFrame rows), close_both c3) \<and>
        calls (snd (filtered_read d c q p t)) = calls c3 @ [CursorClose, ConnClose]"
    using filtered_read_empty [OF assms(2), of q p c2 rows c3 t] close_both_calls [of c3]
    by auto
  show ?thesis
    unfolding read
    using empty
      filtered_read_introspects [OF assms(2), of q p c2 rows c3 t]
      filtered_read_labels [OF assms(2), of q p c2 rows c3 t col_names]
      filtered_read_failure [OF assms(2), of q p e c2 c3 t]
    by blast
qed

theorem filtered_reads_label_nonempty_results_witness:
  "get_all_with_filter (serving []) fresh [PInt 1] ''t'' ''id'' =
     (Inr (DataFrame []),
      \<lparr>is_connected = False,
       calls = [Cursor, Execute (select_in_query ''t'' ''id'' [PInt 1]) None, Fetchall,
                CursorClose, ConnClose]\<rparr>) \<and>
   fst (get_all_with_multiple_filters (describing ''t'' [''id'', ''name''] [[PInt 1, PStr ''x'']]) fresh
          [''id''] (PTuple [PInt 1]) ''t'')
     = Inr \<lparr>df_columns = [PStr ''id'', PStr ''name''], df_values = [[PInt 1, PStr ''x'']]\<rparr> \<and>
   (\<exists>x. fst (get_all_with_filter failing fresh [PInt 1] ''t'' ''id'') = Inl x)"
proof -
  let ?q = "select_in_query ''t'' ''id'' [PInt 1]"
  let ?c1 = "record_call Cursor fresh"
  let ?c2 = "record_call (Execute ?q None) ?c1"
  let ?c3 = "record_call Fetchall ?c2"
  have e1: "conn_cursor (serving []) fresh = (None, ?c1)" by code_simp
  have e2: "cursor_execute (serving []) ?q None ?c1 = (None, ?c2) \<and>
            cursor_fetchall (serving []) ?c2 = (Inr [], ?c3) \<and> df_empty (DataFrame [])"
    by code_simp
  have e3: "close_both ?c3 =
      \<lparr>is_connected = False,
       calls = [Cursor, Execute ?q None, Fetchall, CursorClose, ConnClose]\<rparr>"
    by code_simp
  from filtered_reads_label_nonempty_results
         [of "get_all_with_filter (serving []) fresh [PInt 1] ''t'' ''id''" "serving []" fresh "[PInt 1]"
             "''t''" "''id''" ?q None _ _ ?c1 ?c2 "[]" ?c3] e1 e2
  have a: "get_all_with_filter (serving []) fresh [PInt 1] ''t'' ''id'' = (Inr (DataFrame []), close_both ?c3)"
    by blast
  let ?d = "describing ''t'' [''id'', ''name''] [[PInt 1, PStr ''x'']]"
  let ?w = "select_where_query ''t'' [''id'']"
  let ?k2 = "record_call (Execute ?w (Some (PTuple [PInt 1]))) ?c1"
  let ?k3 = "record_call Fetchall ?k2"
  have n1: "conn_cursor ?d fresh = (None, ?c1)" by code_simp
  have n2: "cursor_execute ?d ?w (Some (PTuple [PInt 1])) ?c1 = (None, ?k2) \<and>
            cursor_fetchall ?d ?k2 = (Inr [[PInt 1, PStr ''x'']], ?k3) \<and>
            \<not> df_empty (DataFrame [[PInt 1, PStr ''x'']])"
    by code_simp
  have n3: "fst (get_table_columns ?d ?k3 ''t'') = Inr [PStr ''id'', PStr ''name''] \<and>
            length [PStr ''id'', PStr ''name''] = length (df_columns (DataFrame [[PInt 1, PStr ''x'']]))"
    by code_simp
  have n4: "(DataFrame [[PInt 1, PStr ''x'']])\<lparr>df_columns := [PStr ''id'', PStr ''name'']\<rparr>
      = \<lparr>df_columns = [PStr ''id'', PStr ''name''], df_values = [[PInt 1, PStr ''x'']]\<rparr>"
    by code_simp
  from filtered_reads_label_nonempty_results
         [of "get_all_with_multiple_filters ?d fresh [''id''] (PTuple [PInt 1]) ''t''" ?d fresh _
             "''t''" _ ?w "Some (PTuple [PInt 1])" "[''id'']" "PTuple [PInt 1]" ?c1 ?k2
             "[[PInt 1, PStr ''x'']]" ?k3 "[PStr ''id'', PStr ''name'']"] n1 n2 n3
  have b: "fst (get_all_with_multiple_filters ?d fresh [''id''] (PTuple [PInt 1]) ''t'')
      = Inr ((DataFrame [[PInt 1, PStr ''x'']])\<lparr>df_columns := [PStr ''id'', PStr ''name'']\<rparr>)"
    by blast
  have f1: "conn_cursor failing fresh = (None, ?c1)" by code_simp
  have f2: "cursor_execute failing ?q None ?c1 = (Some ''statement failed'', ?c2)" by code_simp
  from filtered_reads_label_nonempty_results
         [of "get_all_with_filter failing fresh [PInt 1] ''t'' ''id''" failing fresh "[PInt 1]"
             "''t''" "''id''" ?q None _ _ ?c1 ?c2 _ _ _ "''statement failed''"] f1 f2
  have c: "\<exists>x. fst (get_all_with_filter failing fresh [PInt 1] ''t'' ''id'') = Inl x"
    by blast
  from a b c e3 n4 show ?thesis by simp
qed

section \<open>Counting placeholders\<close>

lemma count_skip: "CHR ''%'' \<noteq> x \<Longrightarrow> count_placeholders (x # s) = count_placeholders s"
  by (cases s) simp_all

lemma count_append_cons:
  "y \<noteq> CHR ''s'' \<Longrightarrow>
   count_placeholders (xs @ y # ys) = count_placeholders xs + count_placeholders (y # ys)"
  by (induction xs rule: count_placeholders.induct) simp_all

lemma count_join_names:
  "list_all no_placeholder ps \<Longrightarrow> y \<noteq> CHR ''s'' \<Longrightarrow>
   count_placeholders (join '', '' ps @ y # rest) = count_placeholders (y # rest)"
  by (induction "'', ''" ps rule: join.induct)
     (simp_all add: no_placeholder_def count_append_cons count_skip)

lemma count_where_clause:
  "list_all no_placeholder cols \<Longrightarrow>
   count_placeholders (where_clause cols @ rest) = length cols + count_placeholders rest"
proof (induction cols)
  case Nil
  then show ?case by (simp add: where_clause_def)
next
  case (Cons c cs)
  then have c: "count_placeholders c = 0"
    by (simp add: no_placeholder_def)
  from Cons.prems have cs: "list_all no_placeholder cs"
    by simp
  show ?case
  proof (cases cs)
    case Nil
    then show ?thesis using c by (simp add: where_clause_def count_append_cons count_skip)
  next
    case (Cons d ds)
    have "where_clause (c # cs) @ rest = c @ '' = %s AND '' @ (where_clause cs @ rest)"
      using Cons by (simp add: where_clause_def)
    then show ?thesis using c Cons.IH [OF cs]
      by (simp add: count_append_cons count_skip)
  qed
qed

lemma count_placeholders_text:
  "count_placeholders (placeholders cols @ rest) = length cols + count_placeholders rest"
proof (induction cols)
  case Nil
  then show ?case by (simp add: placeholders_def)
next
  case (Cons c cs)
  show ?case
  proof (cases cs)
    case Nil
    then show ?thesis by (simp add: placeholders_def)
  next
    case (Cons d ds)
    have "placeholders (c # cs) @ rest = ''%s, '' @ (placeholders cs @ rest)"
      using Cons by (simp add: placeholders_def)
    then show ?thesis using Cons.IH by (simp add: count_skip)
  qed
qed

lemmas frame = indent_def tail_indent_def nl_def

lemma count_select_all: "no_placeholder t \<Longrightarrow> count_placeholders (select_all_query t) = 0"
  by (simp add: select_all_query_def frame no_placeholder_def count_append_cons count_skip)

lemma count_describe: "no_placeholder t \<Longrightarrow> count_placeholders (describe_query t) = 0"
  by (simp add: describe_query_def frame no_placeholder_def count_append_cons count_skip)

lemma count_select_in:
  "no_placeholder t \<Longrightarrow> no_placeholder col \<Longrightarrow> no_placeholder (filter_query fl) \<Longrightarrow>
   count_placeholders (select_in_query t col fl) = 0"
  by (simp add: select_in_query_def frame no_placeholder_def count_append_cons count_skip)

lemma count_select_where:
  "no_placeholder t \<Longrightarrow> list_all no_placeholder cols \<Longrightarrow>
   count_placeholders (select_where_query t cols) = length cols"
  using count_where_clause [of cols "'';'' @ tail_indent"]
  by (simp add: select_where_query_def frame no_placeholder_def count_append_cons count_skip)

lemma count_insert:
  "no_placeholder t \<Longrightarrow> list_all no_placeholder cols \<Longrightarrow>
   count_placeholders (insert_query t cols) = length cols"
  using count_placeholders_text [of cols "'')'' @ tail_indent"]
    count_join_names [of cols "CHR '')''" "'' '' @ indent @ ''VALUES ('' @ placeholders cols @ '')'' @ tail_indent"]
  by (simp add: insert_query_def frame no_placeholder_def count_append_cons count_skip)

lemma count_update:
  "no_placeholder t \<Longrightarrow> list_all no_placeholder cf \<Longrightarrow> no_placeholder (set_clause uc uv) \<Longrightarrow>
   count_placeholders (update_query t cf uc uv) = length cf"
  using count_where_clause [of cf "'';'' @ tail_indent"]
  by (simp add: update_query_def frame no_placeholder_def count_append_cons count_skip)

lemma where_clause_in_order:
  "where_clause cols =
     concat (map (\<lambda>column. column @ '' = %s AND '') (butlast cols)) @
     (if cols = [] then [] else last cols @ '' = %s'')"
proof (induction cols)
  case Nil
  then show ?case by (simp add: where_clause_def)
next
  case (Cons c cs)
  then show ?case by (cases cs) (simp_all add: where_clause_def)
qed

lemma get_all_data_executes:
  assumes "Execute q p \<in> set (calls (snd (get_all_data_from_table d c t)))"
    and "Execute q p \<notin> set (calls c)"
  shows "q = select_all_query t \<and> p = None"
  using assms
  by (auto simp: get_all_data_from_table_def driver_calls Let_def
        split: prod.splits option.splits sum.splits if_splits)

lemma get_table_columns_executes:
  assumes "Execute q p \<in> set (calls (snd (get_table_columns d c t)))"
    and "Execute q p \<notin> set (calls c)"
  shows "q = describe_query t \<and> p = None"
  using assms
  by (auto simp: get_table_columns_def driver_calls Let_def
        split: prod.splits option.splits sum.splits if_splits)

lemma insert_executes:
  assumes "Execute q p \<in> set (calls (snd (insert_into_table d c df t)))"
    and "Execute q p \<notin> set (calls c)"
  shows "q = insert_query t (df_columns df) \<and> (\<exists>row \<in> set (df_values df). p = Some (PTuple row))"
  using assms insert_rows_calls [of d "insert_query t (df_columns df)" "df_values df" "record_call Cursor c"]
  by (auto simp: insert_into_table_def driver_calls Let_def
        split: prod.splits option.splits sum.splits if_splits)

lemma filtered_read_executes:
  assumes "Execute q p \<in> set (calls (snd (filtered_read d c q0 p0 t)))"
    and "Execute q p \<notin> set (calls c)"
  shows "q = q0 \<and> p = p0 \<or> q = describe_query t \<and> p = None"
proof -
  let ?c3 = "record_call Fetchall (record_call (Execute q0 p0) (record_call Cursor c))"
  have inner: "Execute q p \<in> set (calls (snd (get_table_columns d ?c3 t))) \<Longrightarrow>
      Execute q p \<in> set (calls ?c3) \<or> q = describe_query t \<and> p = None"
    using get_table_columns_executes [of q p d ?c3 t] by blast
  show ?thesis
    using assms inner
    by (auto simp: filtered_read_def read_except_def driver_calls Let_def
          split: prod.splits option.splits sum.splits exn.splits if_splits)
qed

text \<open>
  Claim C7 (in every statement the query builders generate, the number of placeholders
  equals the number of bound parameters handed to \<^verbatim>\<open>execute\<close>; for columns and values of
  equal length the equality builders give \<open>len(columns)\<close> predicates joined by AND, in
  order). As stated it fails: no builder compares the two lengths, so two filter columns
  with one filter value give a statement with two placeholders and one parameter; and the
  update writes its new values into the text, so a value that holds \<^verbatim>\<open>%s\<close> adds a
  placeholder although the lengths agree, as does a column name, a table name or a
  member of the IN list that holds \<^verbatim>\<open>%s\<close>.
\<close>

theorem placeholders_exceed_parameters:
  "Execute (select_where_query ''t'' [''a'', ''b'']) (Some (PTuple [PInt 1]))
     \<in> set (calls (snd (get_all_with_multiple_filters (serving []) fresh
                          [''a'', ''b''] (PTuple [PInt 1]) ''t''))) \<and>
   count_placeholders (select_where_query ''t'' [''a'', ''b'']) = 2 \<and>
   param_count (Some (PTuple [PInt 1])) = 1 \<and>
   Execute (update_query ''t'' [''id''] [''name''] [PStr ''50%s'']) (Some (PTuple [PInt 1]))
     \<in> set (calls (snd (update_multiple_columns_by_multi_filter (serving []) fresh
                          [''id''] (PTuple [PInt 1]) [''name''] [PStr ''50%s''] ''t''))) \<and>
   count_placeholders (update_query ''t'' [''id''] [''name''] [PStr ''50%s'']) = 2 \<and>
   Execute (select_where_query ''t'' [''a%s'']) (Some (PTuple [PInt 1]))
     \<in> set (calls (snd (get_all_with_multiple_filters (serving []) fresh
                          [''a%s''] (PTuple [PInt 1]) ''t''))) \<and>
   count_placeholders (select_where_query ''t'' [''a%s'']) = 2 \<and>
   Execute (select_all_query ''t%s'') None
     \<in> set (calls (snd (get_all_data_from_table (serving []) fresh ''t%s''))) \<and>
   count_placeholders (select_all_query ''t%s'') = 1 \<and>
   Execute (select_in_query ''t'' ''id'' [PStr ''%s'']) None
     \<in> set (calls (snd (get_all_with_filter (serving []) fresh [PStr ''%s''] ''t'' ''id''))) \<and>
   count_placeholders (select_in_query ''t'' ''id'' [PStr ''%s'']) = 1 \<and>
   param_count None = 0"
  by code_simp

text \<open>
  Claim C7, amended: when no \<^verbatim>\<open>%s\<close> stands in the table name, in a column name or in the
  text written into the statement (the IN list, the SET clause), the filter columns are
  as many as the filter values and each row of the dataset is as wide as its columns,
  every statement sent by the select-all, the two filtered reads, the insert and the
  update has as many placeholders as bound parameters; and the statement of the equality
  select and of the update carries one predicate \<^verbatim>\<open>column = %s\<close> per filter column, in
  the order of the columns, with \<^verbatim>\<open>AND\<close> between them.
\<close>

theorem placeholders_match_bound_parameters:
  assumes "no_placeholder t"
    and "Execute q p \<in> set (calls c')" and "Execute q p \<notin> set (calls c)"
    and "c' = snd (get_all_data_from_table d c t) \<or>
         c' = snd (get_all_with_filter d c fl t col) \<and> no_placeholder col \<and>
           no_placeholder (filter_query fl) \<or>
         c' = snd (get_all_with_multiple_filters d c cols (PTuple vals) t) \<and>
           list_all no_placeholder cols \<and> length cols = length vals \<or>
         c' = snd (insert_into_table d c df t) \<and> list_all no_placeholder (df_columns df) \<and>
           list_all (\<lambda>row. length row = length (df_columns df)) (df_values df) \<or>
         c' = snd (update_multiple_columns_by_multi_filter d c cols (PTuple vals) uc uv t) \<and>
           list_all no_placeholder cols \<and> length cols = length vals \<and>
           no_placeholder (set_clause uc uv)"
  shows "count_placeholders q = param_count p \<and>
         (c' = snd (get_all_with_multiple_filters d c cols (PTuple vals) t) \<longrightarrow>
            q = describe_query t \<or>
            q = ''\<newline>        SELECT *\<newline>        FROM '' @ t @ ''\<newline>        WHERE '' @
                concat (map (\<lambda>column. column @ '' = %s AND '') (butlast cols)) @
                (if cols = [] then [] else last cols @ '' = %s'') @ '';\<newline>    '') \<and>
         (c' = snd (update_multiple_columns_by_multi_filter d c cols (PTuple vals) uc uv t) \<longrightarrow>
            q = ''\<newline>        UPDATE '' @ t @ ''\<newline>        SET '' @ set_clause uc uv @
                ''\<newline>        WHERE '' @
                concat (map (\<lambda>column. column @ '' = %s AND '') (butlast cols)) @
                (if cols = [] then [] else last cols @ '' = %s'') @ '';\<newline>    '')"
proof (intro conjI impI)
  assume "c' = snd (get_all_with_multiple_filters d c cols (PTuple vals) t)"
  then have "q = select_where_query t cols \<or> q = describe_query t"
    using assms(2,3)
      filtered_read_executes [of q p d c "select_where_query t cols" "Some (PTuple vals)" t]
    by (auto simp: get_all_with_multiple_filters_def)
  then show "q = describe_query t \<or>
            q = ''\<newline>        SELECT *\<newline>        FROM '' @ t @ ''\<newline>        WHERE '' @
                concat (map (\<lambda>column. column @ '' = %s AND '') (butlast cols)) @
                (if cols = [] then [] else last cols @ '' = %s'') @ '';\<newline>    ''"
    using where_clause_in_order [of cols]
    by (auto simp: select_where_query_def frame)
next
  assume "c' = snd (update_multiple_columns_by_multi_filter d c cols (PTuple vals) uc uv t)"
  then have "q = update_query t cols uc uv"
    using assms(2,3) update_executes by blast
  then show "q = ''\<newline>        UPDATE '' @ t @ ''\<newline>        SET '' @ set_clause uc uv @
                ''\<newline>        WHERE '' @
                concat (map (\<lambda>column. column @ '' = %s AND '') (butlast cols)) @
                (if cols = [] then [] else last cols @ '' = %s'') @ '';\<newline>    ''"
    using where_clause_in_order [of cols]
    by (simp add: update_query_def frame)
next
  have describe: "count_placeholders (describe_query t) = 0"
    using assms(1) by (rule count_describe)
  consider
      (all) "c' = snd (get_all_data_from_table d c t)"
    | (inlist) "c' = snd (get_all_with_filter d c fl t col)" "no_placeholder col"
        "no_placeholder (filter_query fl)"
    | (equal) "c' = snd (get_all_with_multiple_filters d c cols (PTuple vals) t)"
        "list_all no_placeholder cols" "length cols = length vals"
    | (insert) "c' = snd (insert_into_table d c df t)" "list_all no_placeholder (df_columns df)"
        "list_all (\<lambda>row. length row = length (df_columns df)) (df_values df)"
    | (update) "c' = snd (update_multiple_columns_by_multi_filter d c cols (PTuple vals) uc uv t)"
        "list_all no_placeholder cols" "length cols = length vals" "no_placeholder (set_clause uc uv)"
    using assms(4) by blast
  then show "count_placeholders q = param_count p"
  proof cases
    case all
    then have "q = select_all_query t \<and> p = None"
      using assms(2,3) get_all_data_executes by blast
    then show ?thesis using assms(1) by (simp add: count_select_all)
  next
    case inlist
    then have "q = select_in_query t col fl \<and> p = None \<or> q = describe_query t \<and> p = None"
      using assms(2,3) filtered_read_executes [of q p d c "select_in_query t col fl" None t]
      by (simp add: get_all_with_filter_def)
    then show ?thesis
      using assms(1) inlist(2,3) describe by (auto simp: count_select_in)
  next
    case equal
    then have "q = select_where_query t cols \<and> p = Some (PTuple vals) \<or>
               q = describe_query t \<and> p = None"
      using assms(2,3)
        filtered_read_executes [of q p d c "select_where_query t cols" "Some (PTuple vals)" t]
      by (simp add: get_all_with_multiple_filters_def)
    then show ?thesis
      using assms(1) equal(2,3) describe by (auto simp: count_select_where)
  next
    case insert
    then obtain row where "q = insert_query t (df_columns df)" "row \<in> set (df_values df)"
        "p = Some (PTuple row)"
      using assms(2,3) insert_executes by blast
    then show ?thesis
      using assms(1) insert(2,3) by (simp add: count_insert list_all_iff)
  next
    case update
    then have "q = update_query t cols uc uv \<and> p = Some (coerce_filter (PTuple vals))"
      using assms(2,3) update_executes by blast
    then show ?thesis
      using assms(1) update(2,3,4) by (simp add: count_update coerce_filter_def)
  qed
qed

theorem placeholders_match_bound_parameters_witness:
  "Execute (''\<newline>        UPDATE t\<newline>        SET price = '' @ [CHR 0x27] @ ''50%'' @ [CHR 0x27] @
            ''\<newline>        WHERE id = %s AND day = %s;\<newline>    '')
           (Some (PTuple [PInt 1, PInt 5]))
     \<in> set (calls (snd (update_multiple_columns_by_multi_filter (serving []) fresh [''id'', ''day'']
                          (PTuple [PInt 1, PInt 5]) [''price''] [PStr ''50%''] ''t''))) \<and>
   count_placeholders (''\<newline>        UPDATE t\<newline>        SET price = '' @ [CHR 0x27] @ ''50%'' @ [CHR 0x27] @
            ''\<newline>        WHERE id = %s AND day = %s;\<newline>    '')
     = param_count (Some (PTuple [PInt 1, PInt 5]))"
proof -
  let ?q = "''\<newline>        UPDATE t\<newline>        SET price = '' @ [CHR 0x27] @ ''50%'' @ [CHR 0x27] @
            ''\<newline>        WHERE id = %s AND day = %s;\<newline>    ''"
  let ?p = "Some (PTuple [PInt 1, PInt 5])"
  let ?c' = "snd (update_multiple_columns_by_multi_filter (serving []) fresh [''id'', ''day'']
                    (PTuple [PInt 1, PInt 5]) [''price''] [PStr ''50%''] ''t'')"
  have h1: "no_placeholder ''t''" by code_simp
  have h2: "Execute ?q ?p \<in> set (calls ?c')" by code_simp
  have h3: "Execute ?q ?p \<notin> set (calls fresh)" by code_simp
  have h4: "list_all no_placeholder [''id'', ''day''] \<and> length [''id'', ''day''] = length [PInt 1, PInt 5] \<and>
            no_placeholder (set_clause [''price''] [PStr ''50%''])" by code_simp
  have h5: "?c' = snd (get_all_data_from_table (serving []) fresh ''t'') \<or>
         ?c' = snd (get_all_with_filter (serving []) fresh [] ''t'' ''id'') \<and> no_placeholder ''id'' \<and>
           no_placeholder (filter_query []) \<or>
         ?c' = snd (get_all_with_multiple_filters (serving []) fresh [''id'', ''day''] (PTuple [PInt 1, PInt 5]) ''t'') \<and>
           list_all no_placeholder [''id'', ''day''] \<and> length [''id'', ''day''] = length [PInt 1, PInt 5] \<or>
         ?c' = snd (insert_into_table (serving []) fresh one_row ''t'') \<and> list_all no_placeholder (df_columns one_row) \<and>
           list_all (\<lambda>row. length row = length (df_columns one_row)) (df_values one_row) \<or>
         ?c' = snd (update_multiple_columns_by_multi_filter (serving []) fresh [''id'', ''day'']
                    (PTuple [PInt 1, PInt 5]) [''price''] [PStr ''50%''] ''t'') \<and>
           list_all no_placeholder [''id'', ''day''] \<and> length [''id'', ''day''] = length [PInt 1, PInt 5] \<and>
           no_placeholder (set_clause [''price''] [PStr ''50%''])"
    using h4 by blast
  from placeholders_match_bound_parameters [OF h1 h2 h3 h5]
  have "count_placeholders ?q = param_count ?p" by blast
  with h2 show ?thesis by blast
qed

end
